theory Spec2Isabelle
  imports Main "HOL-Library.Word"
begin

text \<open>
  A shallow embedding of the receipt processor: the validator, the scoring engine and the
  handlers over the in-memory store of \<open>internal/handlers/handlers.go\<close>, with the
  parts of Go's library they call (\<open>time.Parse\<close>, \<open>strconv.ParseFloat\<close>,
  \<open>strings.TrimSpace\<close>, float64 arithmetic) modelled beside them.
\<close>

section \<open>Data model (internal/models/receipt.go)\<close>

text \<open>
  Go strings are byte sequences; \<open>string\<close> is a list of bytes. The decoded JSON body
  leaves a missing field at its zero value: the empty string, the empty slice.
  Go's \<open>int\<close> is taken to be 64 bits wide, as on every 64-bit port.
\<close>

record Item =
  ShortDescription :: string
  Price :: string

record Receipt =
  Retailer :: string
  PurchaseDate :: string
  PurchaseTime :: string
  Items :: "Item list"
  Total :: string

record ProcessedReceipt =
  ID :: string
  Points :: "64 word"

section \<open>Bytes and the regular expressions of the validator\<close>

definition byte :: "char \<Rightarrow> nat" where
  "byte c = of_char c"

definition isDigit :: "char \<Rightarrow> bool" where
  "isDigit c = (48 \<le> byte c \<and> byte c \<le> 57)"

definition isLower :: "char \<Rightarrow> bool" where
  "isLower c = (97 \<le> byte c \<and> byte c \<le> 122)"

definition isUpper :: "char \<Rightarrow> bool" where
  "isUpper c = (65 \<le> byte c \<and> byte c \<le> 90)"

text \<open>The class \<open>\w\<close> of Go's regexp package: \<open>[0-9A-Za-z_]\<close>.\<close>

definition isWord :: "char \<Rightarrow> bool" where
  "isWord c = (isDigit c \<or> isUpper c \<or> isLower c \<or> c = CHR ''_'')"

text \<open>The class \<open>\s\<close> of Go's regexp package: \<open>[\t\n\f\r ]\<close>.\<close>

definition isReSpace :: "char \<Rightarrow> bool" where
  "isReSpace c = (byte c = 9 \<or> byte c = 10 \<or> byte c = 12 \<or> byte c = 13 \<or> byte c = 32)"

text \<open>
  \<open>^[\w\s\-&]+$\<close>. The classes hold ASCII only, so a string matches exactly when it is
  not empty and each of its bytes is in the class (a byte of a multi-byte or invalid
  UTF-8 sequence is not). Without the flag \<open>m\<close>, \<open>$\<close> matches at the end of the text only.
\<close>

definition retailerRegex :: "string \<Rightarrow> bool" where
  "retailerRegex s =
     (s \<noteq> [] \<and> list_all (\<lambda>c. isWord c \<or> isReSpace c \<or> c = CHR ''-'' \<or> c = CHR ''&'') s)"

text \<open>\<open>^[\w\s\-]+$\<close>\<close>

definition descRegex :: "string \<Rightarrow> bool" where
  "descRegex s = (s \<noteq> [] \<and> list_all (\<lambda>c. isWord c \<or> isReSpace c \<or> c = CHR ''-'') s)"

text \<open>\<open>^\d+\.\d{2}$\<close>, the pattern of \<open>totalRegex\<close> and of \<open>priceRegex\<close>.\<close>

definition amountRegex :: "string \<Rightarrow> bool" where
  "amountRegex s =
     (case rev s of
        d2 # d1 # dot # ds \<Rightarrow>
          isDigit d2 \<and> isDigit d1 \<and> dot = CHR ''.'' \<and> ds \<noteq> [] \<and> list_all isDigit ds
      | _ \<Rightarrow> False)"

section \<open>time.Parse for the two layouts of the program\<close>

text \<open>
  \<open>getnum\<close> of package time reads one or two decimal digits; \<open>fixed\<close> forces two.
  It returns the number and the rest of the string.
\<close>

definition digitVal :: "char \<Rightarrow> nat" where
  "digitVal c = byte c - 48"

definition getnum :: "string \<Rightarrow> bool \<Rightarrow> (nat \<times> string) option" where
  "getnum s fixed =
     (case s of
        [] \<Rightarrow> None
      | c # rest \<Rightarrow>
          if \<not> isDigit c then None
          else (case rest of
                  [] \<Rightarrow> if fixed then None else Some (digitVal c, rest)
                | d # rest' \<Rightarrow>
                    if \<not> isDigit d then (if fixed then None else Some (digitVal c, rest))
                    else Some (digitVal c * 10 + digitVal d, rest')))"

text \<open>\<open>skip\<close> of package time, for a one-byte prefix that is not a space.\<close>

definition skip :: "string \<Rightarrow> char \<Rightarrow> string option" where
  "skip v p = (case v of [] \<Rightarrow> None | c # rest \<Rightarrow> if c = p then Some rest else None)"

record clock =
  Hour :: nat
  Minute :: nat

text \<open>
  \<open>time.Parse("15:04", value)\<close>. The layout element \<open>15\<close> is read by
  \<open>getnum(value, false)\<close> and must be below 24, the element \<open>04\<close> by
  \<open>getnum(value, true)\<close> and must be below 60; text left over is an error.
  \<open>None\<close> is a non-nil error.
\<close>

definition parseClock :: "string \<Rightarrow> clock option" where
  "parseClock v =
     (case getnum v False of
        None \<Rightarrow> None
      | Some (hour, v1) \<Rightarrow>
          if 24 \<le> hour then None
          else (case skip v1 (CHR '':'') of
                  None \<Rightarrow> None
                | Some v2 \<Rightarrow>
                    (case getnum v2 True of
                       None \<Rightarrow> None
                     | Some (mn, v3) \<Rightarrow>
                         if 60 \<le> mn then None
                         else if v3 \<noteq> [] then None
                         else Some \<lparr>Hour = hour, Minute = mn\<rparr>)))"

record date =
  Year :: nat
  Month :: nat
  Day :: nat

definition isLeap :: "nat \<Rightarrow> bool" where
  "isLeap year = (year mod 4 = 0 \<and> (year mod 100 \<noteq> 0 \<or> year mod 400 = 0))"

definition daysIn :: "nat \<Rightarrow> nat \<Rightarrow> nat" where
  "daysIn m year =
     (if m = 2 \<and> isLeap year then 29
      else if m = 2 then 28
      else if m = 4 \<or> m = 6 \<or> m = 9 \<or> m = 11 then 30
      else 31)"

text \<open>
  \<open>time.Parse("2006-01-02", value)\<close>: four digits of year, \<open>-\<close>, two digits of month
  in 1..12, \<open>-\<close>, two digits of day, nothing after; the day is then checked against the
  length of the month.
\<close>

definition parseDate :: "string \<Rightarrow> date option" where
  "parseDate v =
     (if length v < 4 \<or> \<not> list_all isDigit (take 4 v) then None
      else
        let year = foldl (\<lambda>a c. a * 10 + digitVal c) 0 (take 4 v) in
        (case skip (drop 4 v) (CHR ''-'') of
           None \<Rightarrow> None
         | Some v1 \<Rightarrow>
             (case getnum v1 True of
                None \<Rightarrow> None
              | Some (month, v2) \<Rightarrow>
                  if month = 0 \<or> 12 < month then None
                  else (case skip v2 (CHR ''-'') of
                          None \<Rightarrow> None
                        | Some v3 \<Rightarrow>
                            (case getnum v3 True of
                               None \<Rightarrow> None
                             | Some (day, v4) \<Rightarrow>
                                 if v4 \<noteq> [] then None
                                 else if day < 1 \<or> daysIn month year < day then None
                                 else Some \<lparr>Year = year, Month = month, Day = day\<rparr>)))))"

section \<open>The validator (internal/handlers/handlers.go)\<close>

text \<open>A Go \<open>error\<close> result: \<open>Inl\<close> carries the message of the error, \<open>Inr ()\<close> is \<open>nil\<close>.\<close>

definition validateItem :: "Item \<Rightarrow> string + unit" where
  "validateItem i =
     (if ShortDescription i = [] then Inl ''item short description is required''
      else if Price i = [] then Inl ''item price is required''
      else if \<not> descRegex (ShortDescription i) then Inl ''invalid item short description format''
      else if \<not> amountRegex (Price i) then Inl ''invalid item price format''
      else Inr ())"

text \<open>The loop \<open>for _, item := range r.Items\<close> of \<open>validateReceipt\<close>.\<close>

fun validateItems :: "Item list \<Rightarrow> string + unit" where
  "validateItems [] = Inr ()"
| "validateItems (item # items) =
     (case validateItem item of Inl err \<Rightarrow> Inl err | Inr _ \<Rightarrow> validateItems items)"

definition validateReceipt :: "Receipt \<Rightarrow> string + unit" where
  "validateReceipt r =
     (if Retailer r = [] then Inl ''retailer is required''
      else if PurchaseDate r = [] then Inl ''purchaseDate is required''
      else if PurchaseTime r = [] then Inl ''purchaseTime is required''
      else if length (Items r) = 0 then Inl ''at least one item is required''
      else if Total r = [] then Inl ''total is required''
      else if \<not> retailerRegex (Retailer r) then Inl ''invalid retailer name format''
      else if parseDate (PurchaseDate r) = None then Inl ''invalid purchase date format''
      else if parseClock (PurchaseTime r) = None then Inl ''invalid purchase time format''
      else if \<not> amountRegex (Total r) then Inl ''invalid total format''
      else validateItems (Items r))"

section \<open>float64\<close>

text \<open>
  A float64 is a finite number \<open>m * 2 ^ e\<close> (\<open>Finite m e\<close>), an infinity (\<open>Infinite neg\<close>,
  \<open>neg\<close> for the negative one) or NaN. The sign of a zero is not kept: the program
  observes floats only through \<open>int(...)\<close>, which reads both zeros as 0.
\<close>

datatype float64 = Finite int int | Infinite bool | NaN

text \<open>The number of bits of a positive integer.\<close>

function bitlen :: "int \<Rightarrow> nat" where
  "bitlen n = (if n \<le> 0 then 0 else Suc (bitlen (n div 2)))"
  by pat_completeness auto
termination
  by (relation "measure nat") auto

declare bitlen.simps [simp del]

text \<open>The integer nearest to \<open>p / q\<close> (\<open>0 \<le> p\<close>, \<open>0 < q\<close>), a tie going to the even one.\<close>

definition roundHalfEven :: "int \<Rightarrow> int \<Rightarrow> int" where
  "roundHalfEven p q =
     (let n = p div q; r = p mod q in
      if 2 * r < q then n
      else if q < 2 * r then n + 1
      else if even n then n else n + 1)"

text \<open>
  IEEE 754 rounding to nearest, ties to even, of the rational \<open>p / q\<close> (\<open>0 \<le> p\<close>,
  \<open>0 < q\<close>) to binary64: 53 bits of mantissa, the exponent of the last bit between
  -1074 (subnormal numbers) and 971; a result of \<open>2 ^ 1024\<close> or more is the infinity.
\<close>

definition roundRatio :: "int \<Rightarrow> int \<Rightarrow> float64" where
  "roundRatio p q =
     (if p = 0 then Finite 0 0
      else
        let d = int (bitlen p) - int (bitlen q);
            lg = (if (if 0 \<le> d then q * 2 ^ nat d \<le> p else q \<le> p * 2 ^ nat (- d))
                  then d else d - 1);
            e = max (lg - 52) (- 1074)
        in if 971 < e then Infinite False
           else
             let m = (if 0 \<le> e then roundHalfEven p (q * 2 ^ nat e)
                      else roundHalfEven (p * 2 ^ nat (- e)) q)
             in if e = 971 \<and> 2 ^ 53 \<le> m then Infinite False else Finite m e)"

definition fneg :: "float64 \<Rightarrow> float64" where
  "fneg f = (case f of Finite m e \<Rightarrow> Finite (- m) e | Infinite s \<Rightarrow> Infinite (\<not> s) | NaN \<Rightarrow> NaN)"

text \<open>The product of two float64, rounded.\<close>

definition fmul :: "float64 \<Rightarrow> float64 \<Rightarrow> float64" where
  "fmul x y =
     (case x of
        NaN \<Rightarrow> NaN
      | Infinite s \<Rightarrow>
          (case y of
             NaN \<Rightarrow> NaN
           | Infinite t \<Rightarrow> Infinite (s \<noteq> t)
           | Finite m e \<Rightarrow> if m = 0 then NaN else Infinite (s \<noteq> (m < 0)))
      | Finite m1 e1 \<Rightarrow>
          (case y of
             NaN \<Rightarrow> NaN
           | Infinite t \<Rightarrow> if m1 = 0 then NaN else Infinite (t \<noteq> (m1 < 0))
           | Finite m2 e2 \<Rightarrow>
               let m = m1 * m2; e = e1 + e2;
                   r = (if 0 \<le> e then roundRatio (\<bar>m\<bar> * 2 ^ nat e) 1
                        else roundRatio \<bar>m\<bar> (2 ^ nat (- e)))
               in if m < 0 then fneg r else r))"

text \<open>\<open>math.Ceil\<close>: the least integer not below \<open>f\<close>; infinities and NaN are returned.\<close>

definition Ceil :: "float64 \<Rightarrow> float64" where
  "Ceil f =
     (case f of
        Finite m e \<Rightarrow> if 0 \<le> e then Finite m e else Finite (- ((- m) div 2 ^ nat (- e))) 0
      | Infinite s \<Rightarrow> Infinite s
      | NaN \<Rightarrow> NaN)"

text \<open>
  What the program needs of its platform and of the library, taken as parameters:
  \<^item> \<open>convOutOfRange\<close>: the result of \<open>int(f)\<close> when \<open>f\<close> is NaN, an infinity or outside
    the range of int64, which Go leaves to the implementation;
  \<^item> \<open>parseOther\<close>: \<open>strconv.ParseFloat\<close> on a string that is not of the form digits,
    point, two digits (signs, exponents, hexadecimal numbers, infinities, NaN).
\<close>

datatype NumError = ErrSyntax | ErrRange

datatype parsed = Parsed float64 | BadSyntax | OutOfRange bool

record platform =
  convOutOfRange :: "float64 \<Rightarrow> 64 word"
  parseOther :: "string \<Rightarrow> parsed"

text \<open>The conversion \<open>int(f)\<close>: the fraction is discarded (truncation towards zero).\<close>

definition toInt :: "platform \<Rightarrow> float64 \<Rightarrow> 64 word" where
  "toInt pl f =
     (case f of
        Finite m e \<Rightarrow>
          let t = (if 0 \<le> e then m * 2 ^ nat e else sgn m * (\<bar>m\<bar> div 2 ^ nat (- e)))
          in if - (2 ^ 63) \<le> t \<and> t < 2 ^ 63 then word_of_int t else convOutOfRange pl f
      | Infinite s \<Rightarrow> convOutOfRange pl f
      | NaN \<Rightarrow> convOutOfRange pl f)"

text \<open>The float64 constants \<open>100\<close> and \<open>0.2\<close> of the program.\<close>

definition f100 :: float64 where
  "f100 = roundRatio 100 1"

definition f0_2 :: float64 where
  "f0_2 = roundRatio 2 10"

text \<open>
  The amount in hundredths that a string matching \<open>amountRegex\<close> denotes: its digits
  read as one decimal number.
\<close>

definition hundredths :: "string \<Rightarrow> int" where
  "hundredths s = foldl (\<lambda>a c. a * 10 + int (digitVal c)) 0 (filter isDigit s)"

text \<open>
  \<open>strconv.ParseFloat(s, 64)\<close>, as the pair it returns. A string of digits, point and
  two digits is converted to the nearest float64 (ties to even); beyond the largest
  float64 the result is the infinity with \<open>ErrRange\<close>. A string that is not well-formed
  gives 0 with \<open>ErrSyntax\<close>.
\<close>

definition parseAmount :: "string \<Rightarrow> parsed" where
  "parseAmount s =
     (case roundRatio (hundredths s) 100 of
        Finite m e \<Rightarrow> Parsed (Finite m e)
      | Infinite neg \<Rightarrow> OutOfRange neg
      | NaN \<Rightarrow> Parsed NaN)"

definition ParseFloat :: "platform \<Rightarrow> string \<Rightarrow> float64 \<times> NumError option" where
  "ParseFloat pl s =
     (case (if amountRegex s then parseAmount s else parseOther pl s) of
        Parsed f \<Rightarrow> (f, None)
      | BadSyntax \<Rightarrow> (Finite 0 0, Some ErrSyntax)
      | OutOfRange neg \<Rightarrow> (Infinite neg, Some ErrRange))"

section \<open>strings\<close>

definition HasSuffix :: "string \<Rightarrow> string \<Rightarrow> bool" where
  "HasSuffix s suffix =
     (length suffix \<le> length s \<and> drop (length s - length suffix) s = suffix)"

text \<open>
  \<open>unicode.IsSpace\<close> on the UTF-8 encoding: the ASCII spaces \<open>\t \n \v \f \r\<close> and the
  space, U+0085 and U+00A0 (two bytes), U+1680, U+2000 to U+200A, U+2028, U+2029,
  U+202F, U+205F and U+3000 (three bytes).
\<close>

definition asciiSpace :: "char \<Rightarrow> bool" where
  "asciiSpace c = ((9 \<le> byte c \<and> byte c \<le> 13) \<or> byte c = 32)"

definition isSpaceRune :: "string \<Rightarrow> bool" where
  "isSpaceRune bs =
     (case map byte bs of
        [a] \<Rightarrow> (9 \<le> a \<and> a \<le> 13) \<or> a = 32
      | [a, b] \<Rightarrow> a = 194 \<and> (b = 133 \<or> b = 160)
      | [a, b, c] \<Rightarrow>
          (a = 225 \<and> b = 154 \<and> c = 128) \<or>
          (a = 226 \<and> b = 128 \<and> ((128 \<le> c \<and> c \<le> 138) \<or> c = 168 \<or> c = 169 \<or> c = 175)) \<or>
          (a = 226 \<and> b = 129 \<and> c = 159) \<or>
          (a = 227 \<and> b = 128 \<and> c = 128)
      | _ \<Rightarrow> False)"

text \<open>The width in bytes of the space at the start (at the end) of \<open>s\<close>, 0 when there is none.\<close>

definition leadingSpace :: "string \<Rightarrow> nat" where
  "leadingSpace s =
     (if 1 \<le> length s \<and> isSpaceRune (take 1 s) then 1
      else if 2 \<le> length s \<and> isSpaceRune (take 2 s) then 2
      else if 3 \<le> length s \<and> isSpaceRune (take 3 s) then 3
      else 0)"

definition trailingSpace :: "string \<Rightarrow> nat" where
  "trailingSpace s =
     (if 1 \<le> length s \<and> isSpaceRune (drop (length s - 1) s) then 1
      else if 2 \<le> length s \<and> isSpaceRune (drop (length s - 2) s) then 2
      else if 3 \<le> length s \<and> isSpaceRune (drop (length s - 3) s) then 3
      else 0)"

function TrimLeft :: "string \<Rightarrow> string" where
  "TrimLeft s = (if leadingSpace s = 0 then s else TrimLeft (drop (leadingSpace s) s))"
  by pat_completeness auto
termination
  by (relation "measure length") (auto simp: leadingSpace_def split: if_splits)

function TrimRight :: "string \<Rightarrow> string" where
  "TrimRight s =
     (if trailingSpace s = 0 then s else TrimRight (take (length s - trailingSpace s) s))"
  by pat_completeness auto
termination
  by (relation "measure length") (auto simp: trailingSpace_def split: if_splits)

declare TrimLeft.simps [simp del] TrimRight.simps [simp del]

text \<open>\<open>strings.TrimSpace\<close>: all leading and trailing white space removed.\<close>

definition TrimSpace :: "string \<Rightarrow> string" where
  "TrimSpace s = TrimRight (TrimLeft s)"

section \<open>The scoring engine\<close>

text \<open>
  \<open>countAlphanumeric\<close>: the loop ranges over the runes of \<open>s\<close>; a rune in one of the
  three ASCII ranges is exactly a byte in that range.
\<close>

fun countAlphanumeric :: "string \<Rightarrow> nat" where
  "countAlphanumeric [] = 0"
| "countAlphanumeric (c # s) =
     (if isLower c \<or> isUpper c \<or> isDigit c then Suc (countAlphanumeric s)
      else countAlphanumeric s)"

text \<open>Go's remainder \<open>a % b\<close>, which truncates towards zero.\<close>

definition goRem :: "int \<Rightarrow> int \<Rightarrow> int" where
  "goRem a b = sgn a * (\<bar>a\<bar> mod \<bar>b\<bar>)"

definition isTotalMultipleOf25Cents :: "platform \<Rightarrow> string \<Rightarrow> bool" where
  "isTotalMultipleOf25Cents pl totalStr =
     (case ParseFloat pl totalStr of
        (f, Some err) \<Rightarrow> False
      | (f, None) \<Rightarrow>
          let cents = toInt pl (fmul f f100)
          in goRem (sint cents) 25 = 0)"

definition isPurchaseDateOdd :: "string \<Rightarrow> bool" where
  "isPurchaseDateOdd d =
     (case parseDate d of None \<Rightarrow> False | Some t \<Rightarrow> Day t mod 2 \<noteq> 0)"

definition isPurchaseTimeBetween2And4PM :: "string \<Rightarrow> bool" where
  "isPurchaseTimeBetween2And4PM timeStr =
     (case parseClock timeStr of None \<Rightarrow> False | Some t \<Rightarrow> 14 \<le> Hour t \<and> Hour t < 16)"

text \<open>
  The points an item adds under rule 5, and the loop of rule 5 over the items, with the
  running total \<open>points\<close>. The error of \<open>ParseFloat\<close> is dropped (\<open>price, _ := ...\<close>).
\<close>

definition itemPoints :: "platform \<Rightarrow> Item \<Rightarrow> 64 word" where
  "itemPoints pl item =
     (let price = fst (ParseFloat pl (Price item))
      in toInt pl (Ceil (fmul price f0_2)))"

fun rule5 :: "platform \<Rightarrow> Item list \<Rightarrow> 64 word \<Rightarrow> 64 word" where
  "rule5 pl [] points = points"
| "rule5 pl (item # items) points =
     rule5 pl items
       (if length (TrimSpace (ShortDescription item)) mod 3 = 0
        then points + itemPoints pl item else points)"

text \<open>
  \<open>calculatePoints\<close>, split after rule 6: \<open>pointsBeforeRule7\<close> is the running total
  \<open>points\<close> when rule 7 is reached. Additions of \<open>points\<close> wrap around, as Go's do. No
  step of the function can panic (no index, no nil pointer, divisors 2, 3 and 25 only),
  so the result has no error case.
\<close>

definition pointsBeforeRule7 :: "platform \<Rightarrow> Receipt \<Rightarrow> 64 word" where
  "pointsBeforeRule7 pl r =
     (let points = 0;
          points = points + of_nat (countAlphanumeric (Retailer r));
          points = (if HasSuffix (Total r) ''.00'' then points + 50 else points);
          points = (if isTotalMultipleOf25Cents pl (Total r) then points + 25 else points);
          points = points + of_nat (length (Items r) div 2) * 5;
          points = rule5 pl (Items r) points;
          points = (if isPurchaseDateOdd (PurchaseDate r) then points + 6 else points)
      in points)"

definition calculatePoints :: "platform \<Rightarrow> Receipt \<Rightarrow> 64 word" where
  "calculatePoints pl r =
     (let points = pointsBeforeRule7 pl r;
          points = (if isPurchaseTimeBetween2And4PM (PurchaseTime r) then points + 10 else points)
      in points)"

section \<open>The store and the two handlers\<close>

text \<open>
  The state of the process: the map \<open>receipts\<close>, and how many identifiers
  \<open>uuid.New()\<close> has produced. The generator is a parameter \<open>gen\<close>: its \<open>k\<close>-th result is
  \<open>gen k\<close> (a failure of the system's random source, on which \<open>uuid.New()\<close> panics, is
  not modelled). A handler takes what the collaborators hand it: whether \<open>ValidateJWT\<close>
  accepted the request, and the decoded body (\<open>None\<close> when decoding failed).

  Each handler touches the map once, holding the lock \<open>mu\<close>, so concurrent requests act
  on the map in some order; a history below lists requests in that order.
\<close>

record server =
  receipts :: "string \<rightharpoonup> ProcessedReceipt"
  uuidCalls :: nat

datatype response =
    HttpError nat string
  | IdJSON string
  | PointsJSON "64 word"

definition ProcessReceipt ::
  "platform \<Rightarrow> (nat \<Rightarrow> string) \<Rightarrow> bool \<Rightarrow> Receipt option \<Rightarrow> server \<Rightarrow> response \<times> server" where
  "ProcessReceipt pl gen authorized body st =
     (if \<not> authorized then (HttpError 401 ''Unauthorized'', st)
      else
        (case body of
           None \<Rightarrow> (HttpError 400 ''Invalid JSON format'', st)
         | Some receipt \<Rightarrow>
             (case validateReceipt receipt of
                Inl err \<Rightarrow> (HttpError 400 err, st)
              | Inr _ \<Rightarrow>
                  let points = calculatePoints pl receipt;
                      rid = gen (uuidCalls st);
                      processedReceipt = \<lparr>ID = rid, Points = points\<rparr>
                  in (IdJSON rid,
                      st\<lparr>receipts := (receipts st)(rid \<mapsto> processedReceipt),
                         uuidCalls := Suc (uuidCalls st)\<rparr>))))"

definition GetPoints :: "bool \<Rightarrow> string \<Rightarrow> server \<Rightarrow> response \<times> server" where
  "GetPoints authorized rid st =
     (if \<not> authorized then (HttpError 401 ''Unauthorized'', st)
      else
        (case receipts st rid of
           None \<Rightarrow> (HttpError 404 ''No receipt found for that ID'', st)
         | Some receipt \<Rightarrow> (PointsJSON (Points receipt), st)))"

text \<open>A history of requests, served in order from a state; the responses are collected.\<close>

datatype request = Submit bool "Receipt option" | Lookup bool string

fun serve :: "platform \<Rightarrow> (nat \<Rightarrow> string) \<Rightarrow> request \<Rightarrow> server \<Rightarrow> response \<times> server" where
  "serve pl gen (Submit authorized body) st = ProcessReceipt pl gen authorized body st"
| "serve pl gen (Lookup authorized rid) st = GetPoints authorized rid st"

fun run :: "platform \<Rightarrow> (nat \<Rightarrow> string) \<Rightarrow> request list \<Rightarrow> server \<Rightarrow> response list \<times> server" where
  "run pl gen [] st = ([], st)"
| "run pl gen (q # qs) st =
     (let (resp, st1) = serve pl gen q st;
          (resps, st2) = run pl gen qs st1
      in (resp # resps, st2))"

definition newServer :: server where
  "newServer = \<lparr>receipts = Map.empty, uuidCalls = 0\<rparr>"

section \<open>The order of the checks, as the specification lists it\<close>

text \<open>
  A check is a pair of a condition that must hold and the reason reported when it does
  not. \<open>first_failure\<close> runs a list of checks in order and stops at the first that fails.
\<close>

fun first_failure :: "(bool \<times> string) list \<Rightarrow> string + unit" where
  "first_failure [] = Inr ()"
| "first_failure ((holds, reason) # cs) = (if holds then first_failure cs else Inl reason)"

definition presence_checks :: "Receipt \<Rightarrow> (bool \<times> string) list" where
  "presence_checks r =
     [(Retailer r \<noteq> [], ''retailer is required''),
      (PurchaseDate r \<noteq> [], ''purchaseDate is required''),
      (PurchaseTime r \<noteq> [], ''purchaseTime is required''),
      (Items r \<noteq> [], ''at least one item is required''),
      (Total r \<noteq> [], ''total is required'')]"

definition format_checks :: "Receipt \<Rightarrow> (bool \<times> string) list" where
  "format_checks r =
     [(retailerRegex (Retailer r), ''invalid retailer name format''),
      (parseDate (PurchaseDate r) \<noteq> None, ''invalid purchase date format''),
      (parseClock (PurchaseTime r) \<noteq> None, ''invalid purchase time format''),
      (amountRegex (Total r), ''invalid total format'')]"

definition item_checks :: "Item \<Rightarrow> (bool \<times> string) list" where
  "item_checks i =
     [(ShortDescription i \<noteq> [], ''item short description is required''),
      (Price i \<noteq> [], ''item price is required''),
      (descRegex (ShortDescription i), ''invalid item short description format''),
      (amountRegex (Price i), ''invalid item price format'')]"

definition ordered_checks :: "Receipt \<Rightarrow> (bool \<times> string) list" where
  "ordered_checks r = presence_checks r @ format_checks r @ concat (map item_checks (Items r))"

section \<open>Concrete inputs\<close>

text \<open>The receipt of the concrete scenario.\<close>

definition target :: Receipt where
  "target =
     \<lparr>Retailer = ''Target'', PurchaseDate = ''2022-01-01'', PurchaseTime = ''13:01'',
      Items = [\<lparr>ShortDescription = ''Mountain Dew 12PK'', Price = ''6.49''\<rparr>,
               \<lparr>ShortDescription = ''Emils Cheese Pizza'', Price = ''12.25''\<rparr>],
      Total = ''18.74''\<rparr>"

text \<open>A receipt with two prices of twenty digits before the point.\<close>

definition bigPrices :: Receipt where
  "bigPrices =
     \<lparr>Retailer = ''A'', PurchaseDate = ''2022-01-02'', PurchaseTime = ''13:01'',
      Items = [\<lparr>ShortDescription = ''abc'', Price = ''45000000000000000000.00''\<rparr>,
               \<lparr>ShortDescription = ''abc'', Price = ''45000000000000000000.00''\<rparr>],
      Total = ''0.01''\<rparr>"

text \<open>The amount \<open>1\<close>, 309 zeros, \<open>.00\<close>: it matches \<open>amountRegex\<close> and is above every float64.\<close>

definition hugeAmount :: string where
  "hugeAmount = CHR ''1'' # replicate 309 (CHR ''0'') @ ''.00''"

text \<open>A receipt none of whose fields parses.\<close>

definition garbled :: Receipt where
  "garbled =
     \<lparr>Retailer = ''Target'', PurchaseDate = ''yesterday'', PurchaseTime = ''noon'',
      Items = [\<lparr>ShortDescription = ''abc'', Price = ''free''\<rparr>],
      Total = ''lots''\<rparr>"

text \<open>
  A platform for the closed examples. On amd64 the conversion instruction gives
  \<open>- 2 ^ 63\<close> for every operand that is out of range. For \<open>parseOther\<close> the instance
  takes every string that is not of the form digits, point, two digits as not
  well-formed; the examples consult it only at \<open>''free''\<close> and \<open>''lots''\<close>, which
  \<open>strconv.ParseFloat\<close> rejects.
\<close>

definition amd64 :: platform where
  "amd64 = \<lparr>convOutOfRange = (\<lambda>_. - (2 ^ 63)), parseOther = (\<lambda>_. BadSyntax)\<rparr>"

text \<open>A generator of identifiers that never repeats: \<open>u\<close>, \<open>uu\<close>, \<open>uuu\<close>, ...\<close>

definition unaryIds :: "nat \<Rightarrow> string" where
  "unaryIds k = replicate (Suc k) (CHR ''u'')"

section \<open>Validation: order and short-circuit\<close>

lemma first_failure_append:
  "first_failure (cs @ ds) = (case first_failure cs of Inl e \<Rightarrow> Inl e | Inr _ \<Rightarrow> first_failure ds)"
  by (induction cs) auto

lemma validateItem_checks: "validateItem i = first_failure (item_checks i)"
  by (simp add: validateItem_def item_checks_def)

lemma validateItems_checks: "validateItems items = first_failure (concat (map item_checks items))"
  by (induction items) (simp_all add: first_failure_append validateItem_checks split: sum.splits)

text \<open>
  C7. The validator is the first failure of the checks in the order of the specification:
  the five presence checks, then the formats of retailer, date, time and total, then the
  checks of each item in sequence; the reason returned is that of the first check that
  fails, and no later check is consulted.
\<close>

theorem validateReceipt_first_failure:
  "validateReceipt r = first_failure (ordered_checks r)"
  by (simp add: validateReceipt_def ordered_checks_def presence_checks_def format_checks_def
      first_failure_append validateItems_checks)

section \<open>Evaluation\<close>

lemmas byte_eval = byte_def isDigit_def isLower_def isUpper_def isWord_def isReSpace_def
  digitVal_def asciiSpace_def
lemmas float_eval = roundRatio_def roundHalfEven_def bitlen.simps fmul_def fneg_def Ceil_def
  toInt_def Let_def
lemmas parse_eval = ParseFloat_def amountRegex_def parseAmount_def hundredths_def
lemmas time_eval = getnum_def skip_def parseClock_def parseDate_def isLeap_def daysIn_def
lemmas trim_eval = TrimSpace_def TrimLeft.simps TrimRight.simps leadingSpace_def
  trailingSpace_def isSpaceRune_def
lemmas regex_eval = retailerRegex_def descRegex_def amountRegex_def
lemmas validate_eval = validateReceipt_def validateItem_def

lemma f100_val: "f100 = Finite 7036874417766400 (- 46)"
  by (simp add: f100_def float_eval)

lemma f0_2_val: "f0_2 = Finite 7205759403792794 (- 55)"
  by (simp add: f0_2_def float_eval)

section \<open>The concrete scenario\<close>

lemma total_1874: "\<not> isTotalMultipleOf25Cents pl ''18.74''"
  by (simp add: isTotalMultipleOf25Cents_def parse_eval f100_val goRem_def float_eval byte_eval)

lemma pizza_points:
  "itemPoints pl \<lparr>ShortDescription = ''Emils Cheese Pizza'', Price = ''12.25''\<rparr> = 3"
  by (simp add: itemPoints_def parse_eval f0_2_val float_eval byte_eval)

lemma target_lengths:
  "length (TrimSpace ''Emils Cheese Pizza'') = 18"
  "length (TrimSpace ''Mountain Dew 12PK'') = 17"
  by (simp_all add: trim_eval byte_eval)

lemma date_20220101: "isPurchaseDateOdd ''2022-01-01''"
  by (simp add: isPurchaseDateOdd_def time_eval byte_eval)

lemma time_1301: "\<not> isPurchaseTimeBetween2And4PM ''13:01''"
  by (simp add: isPurchaseTimeBetween2And4PM_def time_eval byte_eval)

lemma target_rule5: "rule5 pl (Items target) p = p + 3"
  by (simp add: target_def target_lengths pizza_points)

lemma target_before7: "pointsBeforeRule7 pl (target\<lparr>PurchaseTime := t\<rparr>) = 20"
  by (simp add: target_def pointsBeforeRule7_def total_1874 pizza_points target_lengths
      date_20220101 HasSuffix_def byte_eval)

lemma target_points: "calculatePoints pl target = 20"
  using target_before7 [of pl "''13:01''"]
  by (simp add: calculatePoints_def target_def time_1301)

lemma target_valid: "validateReceipt target = Inr ()"
  by (simp add: target_def validate_eval regex_eval time_eval byte_eval)

text \<open>
  C2. The receipt of the scenario (retailer Target, the two items, total 18.74, date
  2022-01-01, time 13:01) scores exactly 20 points on every platform: 6 for the retailer,
  nothing for rules 2 and 3, 5 for the pair of items, 3 for the pizza under rule 5, 6 for
  the odd day, nothing for rule 7.
\<close>

theorem target_scores_20:
  "calculatePoints pl target = 20
   \<and> countAlphanumeric (Retailer target) = 6
   \<and> \<not> HasSuffix (Total target) ''.00''
   \<and> \<not> isTotalMultipleOf25Cents pl (Total target)
   \<and> length (Items target) div 2 * 5 = 5
   \<and> rule5 pl (Items target) 0 = 3
   \<and> isPurchaseDateOdd (PurchaseDate target)
   \<and> \<not> isPurchaseTimeBetween2And4PM (PurchaseTime target)"
  using target_points [of pl] target_rule5 [of pl 0] total_1874 [of pl] date_20220101 time_1301
  by (simp add: target_def HasSuffix_def byte_eval)

section \<open>Rule 3 and the cents of the total\<close>

lemma cents_201: "toInt pl (fmul (fst (ParseFloat pl ''2.01'')) f100) = 200"
  by (simp add: parse_eval f100_val float_eval byte_eval)

lemma total_201: "isTotalMultipleOf25Cents pl ''2.01''"
  by (simp add: isTotalMultipleOf25Cents_def parse_eval f100_val goRem_def float_eval byte_eval)

lemma amount_201: "amountRegex ''2.01'' \<and> hundredths ''2.01'' = 201"
  by (simp add: parse_eval byte_eval)

lemma before7_201: "pointsBeforeRule7 pl (target\<lparr>Total := ''2.01''\<rparr>) = 45"
  by (simp add: target_def pointsBeforeRule7_def total_201 pizza_points target_lengths
      date_20220101 HasSuffix_def byte_eval)

lemma total_2_pow_52:
  "amountRegex ''4503599627370497.25''
   \<and> hundredths ''4503599627370497.25'' mod 25 = 0
   \<and> \<not> isTotalMultipleOf25Cents pl ''4503599627370497.25''"
  by (simp add: isTotalMultipleOf25Cents_def parse_eval f100_val goRem_def float_eval byte_eval)

text \<open>
  C1. The claim fails on the code at the total 2.01, which passes validation and is 201
  hundredths, not a multiple of 25. The float64 nearest to 2.01 times 100 is just below
  201, and \<open>int(f * 100)\<close> discards the fraction instead of rounding: the cents are 200,
  \<open>isTotalMultipleOf25Cents\<close> answers true and the scenario's receipt with this total
  scores 45 instead of 20.
\<close>

theorem rule3_awarded_for_2_01:
  "amountRegex ''2.01''
   \<and> hundredths ''2.01'' = 201
   \<and> toInt pl (fmul (fst (ParseFloat pl ''2.01'')) f100) = 200
   \<and> isTotalMultipleOf25Cents pl ''2.01''
   \<and> validateReceipt (target\<lparr>Total := ''2.01''\<rparr>) = Inr ()
   \<and> calculatePoints pl (target\<lparr>Total := ''2.01''\<rparr>) = 45"
proof -
  have "validateReceipt (target\<lparr>Total := ''2.01''\<rparr>) = Inr ()"
    by (simp add: target_def validate_eval regex_eval time_eval byte_eval)
  moreover have "PurchaseTime (target\<lparr>Total := ''2.01''\<rparr>) = ''13:01''"
    by (simp add: target_def)
  then have "calculatePoints pl (target\<lparr>Total := ''2.01''\<rparr>) = 45"
    by (simp add: calculatePoints_def before7_201 time_1301)
  ultimately show ?thesis
    using amount_201 cents_201 [of pl] total_201 [of pl] by simp
qed

section \<open>The sign of the score\<close>

lemma abc_length: "length (TrimSpace ''abc'') = 3"
  by (simp add: trim_eval byte_eval)

lemma big_item:
  "itemPoints pl \<lparr>ShortDescription = ''abc'', Price = ''45000000000000000000.00''\<rparr>
     = 9000000000000000000"
  by (simp add: itemPoints_def parse_eval f0_2_val float_eval byte_eval)

lemma total_001: "\<not> isTotalMultipleOf25Cents pl ''0.01''"
  by (simp add: isTotalMultipleOf25Cents_def parse_eval f100_val goRem_def float_eval byte_eval)

lemma bigPrices_valid: "validateReceipt bigPrices = Inr ()"
  by (simp add: bigPrices_def validate_eval regex_eval time_eval byte_eval)

lemma bigPrices_points: "calculatePoints pl bigPrices = 18000000000000000006"
  by (simp add: bigPrices_def calculatePoints_def pointsBeforeRule7_def big_item total_001
      abc_length HasSuffix_def isPurchaseDateOdd_def isPurchaseTimeBetween2And4PM_def
      time_eval byte_eval)

text \<open>
  C3. The claim fails on the code at \<open>bigPrices\<close>, which passes validation. Each of its
  two items adds \<open>9 * 10 ^ 18\<close> points under rule 5, a value of int64, and their sum wraps
  around: read as the signed integer that \<open>points\<close> is, the score is negative. No
  conversion is out of range here, so this holds on every platform.
\<close>

theorem bigPrices_score_negative:
  "validateReceipt bigPrices = Inr ()
   \<and> itemPoints pl (hd (Items bigPrices)) = 9000000000000000000
   \<and> sint (calculatePoints pl bigPrices) = - 446744073709551610"
  using bigPrices_valid big_item [of pl]
  by (simp add: bigPrices_points) (simp add: bigPrices_def)

section \<open>The purchase time\<close>

lemma getnum_bound: "getnum s fixed = Some (n, rest) \<Longrightarrow> n < 100"
  by (auto simp: getnum_def isDigit_def digitVal_def split: list.splits if_splits)

lemma parseClock_range: "parseClock s = Some t \<Longrightarrow> Hour t < 24 \<and> Minute t < 60"
  by (auto simp: parseClock_def split: option.splits if_splits prod.splits)

text \<open>
  What the validator accepts as a purchase time: an hour of one digit or of two digits
  below 24, a colon, and a minute of two digits below 60.
\<close>

lemma parseClock_accepts_iff:
  "parseClock s \<noteq> None \<longleftrightarrow>
     (\<exists>h m1 m2. s = [h, CHR '':'', m1, m2] \<and> isDigit h \<and> isDigit m1 \<and> isDigit m2
        \<and> digitVal m1 * 10 + digitVal m2 < 60)
     \<or> (\<exists>h1 h2 m1 m2. s = [h1, h2, CHR '':'', m1, m2] \<and> isDigit h1 \<and> isDigit h2
        \<and> isDigit m1 \<and> isDigit m2
        \<and> digitVal h1 * 10 + digitVal h2 < 24 \<and> digitVal m1 * 10 + digitVal m2 < 60)"
  (is "?L = ?R")
proof
  assume ?L
  then show ?R
    by (auto simp: parseClock_def getnum_def skip_def
        split: option.splits list.splits if_splits prod.splits)
next
  assume ?R
  then show ?L
    by (auto simp: parseClock_def getnum_def skip_def isDigit_def digitVal_def byte_def)
qed

lemma clock_905: "parseClock ''9:05'' = Some \<lparr>Hour = 9, Minute = 5\<rparr>"
  by (simp add: time_eval byte_eval)

text \<open>
  C5. The claim fails on the code at the purchase time 9:05, which is not of the shape
  of two digits, colon, two digits: the layout element \<open>15\<close> of \<open>time.Parse\<close> reads an
  hour of one digit as well, so the validator accepts the scenario's receipt with this
  time.
\<close>

theorem one_digit_hour_accepted:
  "parseClock ''9:05'' = Some \<lparr>Hour = 9, Minute = 5\<rparr>
   \<and> validateReceipt (target\<lparr>PurchaseTime := ''9:05''\<rparr>) = Inr ()"
proof -
  have "validateReceipt (target\<lparr>PurchaseTime := ''9:05''\<rparr>) = Inr ()"
    by (simp add: target_def validate_eval regex_eval time_eval byte_eval)
  with clock_905 show ?thesis by simp
qed

lemma window_examples:
  "isPurchaseTimeBetween2And4PM ''14:00''"
  "isPurchaseTimeBetween2And4PM ''15:59''"
  "\<not> isPurchaseTimeBetween2And4PM ''16:00''"
  "\<not> isPurchaseTimeBetween2And4PM ''13:59''"
  by (simp_all add: isPurchaseTimeBetween2And4PM_def time_eval byte_eval)

text \<open>
  C6. For a purchase time that the validator accepts, read as hour \<open>Hour t\<close> and minute
  \<open>Minute t\<close>, rule 7 adds exactly 10 points to the running total when the time is in
  [14:00, 16:00) and nothing otherwise; 14:00 and 15:59 are inside the window, 16:00 and
  13:59 are not.
\<close>

theorem rule7_window:
  "(parseClock (PurchaseTime r) = Some t \<longrightarrow>
      calculatePoints pl r =
        pointsBeforeRule7 pl r +
        (if 14 * 60 \<le> Hour t * 60 + Minute t \<and> Hour t * 60 + Minute t < 16 * 60
         then 10 else 0))
   \<and> isPurchaseTimeBetween2And4PM ''14:00''
   \<and> isPurchaseTimeBetween2And4PM ''15:59''
   \<and> \<not> isPurchaseTimeBetween2And4PM ''16:00''
   \<and> \<not> isPurchaseTimeBetween2And4PM ''13:59''"
proof -
  have "calculatePoints pl r =
        pointsBeforeRule7 pl r +
        (if 14 * 60 \<le> Hour t * 60 + Minute t \<and> Hour t * 60 + Minute t < 16 * 60
         then 10 else 0)"
    if p: "parseClock (PurchaseTime r) = Some t"
  proof -
    from p have "Minute t < 60" by (simp add: parseClock_range)
    then have "(14 * 60 \<le> Hour t * 60 + Minute t \<and> Hour t * 60 + Minute t < 16 * 60)
        = (14 \<le> Hour t \<and> Hour t < 16)"
      by arith
    with p show ?thesis
      by (simp add: calculatePoints_def isPurchaseTimeBetween2And4PM_def Let_def)
  qed
  with window_examples show ?thesis by simp
qed

lemma clock_1559: "parseClock ''15:59'' = Some \<lparr>Hour = 15, Minute = 59\<rparr>"
  by (simp add: time_eval byte_eval)

theorem rule7_window_witness:
  "parseClock (PurchaseTime (target\<lparr>PurchaseTime := ''15:59''\<rparr>)) = Some \<lparr>Hour = 15, Minute = 59\<rparr>
   \<and> calculatePoints amd64 (target\<lparr>PurchaseTime := ''15:59''\<rparr>) = 30"
  using rule7_window [of "target\<lparr>PurchaseTime := ''15:59''\<rparr>" "\<lparr>Hour = 15, Minute = 59\<rparr>" amd64]
    clock_1559 target_before7 [of amd64 "''15:59''"]
  by simp

section \<open>The store: lookup\<close>

lemma run_dom:
  "run pl gen reqs st0 = (resps, st) \<Longrightarrow>
     dom (receipts st) = dom (receipts st0) \<union> {x. IdJSON x \<in> set resps}"
proof (induction reqs arbitrary: st0 resps st)
  case Nil
  then show ?case by auto
next
  case (Cons q qs)
  obtain resp st1 where s: "serve pl gen q st0 = (resp, st1)" by (cases "serve pl gen q st0")
  obtain rs st2 where r: "run pl gen qs st1 = (rs, st2)" by (cases "run pl gen qs st1")
  from Cons.prems s r have eq: "resps = resp # rs" "st = st2" by auto
  have step: "dom (receipts st1) = dom (receipts st0) \<union> {x. IdJSON x = resp}"
    using s
    by (cases q) (auto simp: ProcessReceipt_def GetPoints_def Let_def split: if_splits option.splits sum.splits)
  from Cons.IH[OF r] step eq show ?case by auto
qed

text \<open>
  C4. After any history of requests served from the empty store, the lookup of an
  identifier by an authorized caller answers "not found" exactly when no submission of
  the history returned that identifier; for an identifier that a submission returned, it
  answers the points stored under it; and "not found" is the only error it answers.
\<close>

theorem lookup_NotFound_iff_never_issued:
  assumes "run pl gen reqs newServer = (resps, st)"
  shows "(fst (GetPoints True x st) = HttpError 404 ''No receipt found for that ID'') = (IdJSON x \<notin> set resps)
    \<and> (IdJSON x \<in> set resps \<longrightarrow>
         (\<exists>e. receipts st x = Some e \<and> GetPoints True x st = (PointsJSON (Points e), st)))
    \<and> (\<forall>code msg. fst (GetPoints True x st) = HttpError code msg \<longrightarrow>
         code = 404 \<and> msg = ''No receipt found for that ID'')"
proof -
  from run_dom[OF assms] have d: "dom (receipts st) = {x. IdJSON x \<in> set resps}"
    by (simp add: newServer_def)
  show ?thesis
  proof (cases "receipts st x")
    case None
    with d have "IdJSON x \<notin> set resps" by auto
    with None show ?thesis by (simp add: GetPoints_def)
  next
    case (Some e)
    with d have "IdJSON x \<in> set resps" by auto
    with Some show ?thesis by (simp add: GetPoints_def)
  qed
qed

lemma run_target:
  "run amd64 unaryIds [Submit True (Some target)] newServer =
     ([IdJSON ''u''], \<lparr>receipts = [''u'' \<mapsto> \<lparr>ID = ''u'', Points = 20\<rparr>], uuidCalls = 1\<rparr>)"
  by (simp add: ProcessReceipt_def target_valid target_points newServer_def unaryIds_def Let_def)


theorem lookup_witness:
  "fst (GetPoints True ''u'' (snd (run amd64 unaryIds [Submit True (Some target)] newServer)))
     \<noteq> HttpError 404 ''No receipt found for that ID''
   \<and> fst (GetPoints True ''v'' (snd (run amd64 unaryIds [Submit True (Some target)] newServer)))
     = HttpError 404 ''No receipt found for that ID''"
proof -
  note t = lookup_NotFound_iff_never_issued [OF run_target, THEN conjunct1]
  have "fst (GetPoints True ''u'' \<lparr>receipts = [''u'' \<mapsto> \<lparr>ID = ''u'', Points = 20\<rparr>], uuidCalls = 1\<rparr>)
      \<noteq> HttpError 404 ''No receipt found for that ID''"
    using t [of "''u''"] by simp
  moreover
  have "fst (GetPoints True ''v'' \<lparr>receipts = [''u'' \<mapsto> \<lparr>ID = ''u'', Points = 20\<rparr>], uuidCalls = 1\<rparr>)
      = HttpError 404 ''No receipt found for that ID''"
    using t [of "''v''"] by simp
  ultimately show ?thesis
    by (simp only: run_target snd_conv simp_thms)
qed


section \<open>The store: rejected submissions\<close>

text \<open>
  C8. When the validator rejects the receipt of an authorized submission with a reason,
  the handler answers that reason as an error and returns the state it was given: the map
  has no new entry and no identifier has been generated.
\<close>

theorem rejected_submit_leaves_store:
  "validateReceipt r = Inl reason \<Longrightarrow>
     ProcessReceipt pl gen True (Some r) st = (HttpError 400 reason, st)"
  by (simp add: ProcessReceipt_def)

lemma bad_total: "validateReceipt (target\<lparr>Total := ''18.7''\<rparr>) = Inl ''invalid total format''"
  by (simp add: target_def validate_eval regex_eval time_eval byte_eval)

theorem rejected_witness:
  "validateReceipt (target\<lparr>Total := ''18.7''\<rparr>) = Inl ''invalid total format''
   \<and> ProcessReceipt amd64 unaryIds True (Some (target\<lparr>Total := ''18.7''\<rparr>)) newServer
       = (HttpError 400 ''invalid total format'', newServer)"
  using rejected_submit_leaves_store [OF bad_total, of amd64 unaryIds newServer] bad_total
  by (simp only: simp_thms)


section \<open>The store: entries are never changed\<close>

lemma serve_keeps:
  assumes "inj gen" and "dom (receipts st) \<subseteq> gen ` {..<uuidCalls st}"
    and "serve pl gen q st = (resp, st')"
  shows "dom (receipts st') \<subseteq> gen ` {..<uuidCalls st'} \<and>
         (\<forall>k e. receipts st k = Some e \<longrightarrow> receipts st' k = Some e)"
proof -
  have fresh: "gen (uuidCalls st) \<notin> dom (receipts st)"
  proof
    assume "gen (uuidCalls st) \<in> dom (receipts st)"
    with assms(2) obtain j where "j < uuidCalls st" "gen (uuidCalls st) = gen j" by auto
    with assms(1) show False by (auto dest: injD)
  qed
  show ?thesis
  proof (cases q)
    case (Lookup a k)
    with assms show ?thesis by (auto simp: GetPoints_def split: if_splits option.splits)
  next
    case (Submit a body)
    show ?thesis
    proof (cases "fst (ProcessReceipt pl gen a body st) = IdJSON (gen (uuidCalls st))
                   \<and> (\<exists>r. body = Some r \<and> a \<and> validateReceipt r = Inr ())")
      case True
      then obtain r where b: "body = Some r" "a" "validateReceipt r = Inr ()" by auto
      with assms(3) Submit have st': "st' = st\<lparr>receipts := (receipts st)(gen (uuidCalls st) \<mapsto>
            \<lparr>ID = gen (uuidCalls st), Points = calculatePoints pl r\<rparr>), uuidCalls := Suc (uuidCalls st)\<rparr>"
        by (auto simp: ProcessReceipt_def Let_def)
      have "dom (receipts st') \<subseteq> gen ` {..<uuidCalls st'}"
        using assms(2) by (auto simp: st' lessThan_Suc)
      moreover have "\<forall>k e. receipts st k = Some e \<longrightarrow> receipts st' k = Some e"
        using fresh by (auto simp: st')
      ultimately show ?thesis by simp
    next
      case False
      with assms(3) Submit have "st' = st"
        by (auto simp: ProcessReceipt_def Let_def split: if_splits option.splits sum.splits)
      with assms(2) show ?thesis by simp
    qed
  qed
qed

lemma run_keeps:
  assumes "inj gen"
  shows "dom (receipts st) \<subseteq> gen ` {..<uuidCalls st} \<Longrightarrow> run pl gen reqs st = (resps, st') \<Longrightarrow>
     dom (receipts st') \<subseteq> gen ` {..<uuidCalls st'} \<and>
     (\<forall>k e. receipts st k = Some e \<longrightarrow> receipts st' k = Some e)"
proof (induction reqs arbitrary: st resps st')
  case Nil
  then show ?case by auto
next
  case (Cons q qs)
  obtain resp st1 where s: "serve pl gen q st = (resp, st1)" by (cases "serve pl gen q st")
  obtain rs st2 where r: "run pl gen qs st1 = (rs, st2)" by (cases "run pl gen qs st1")
  from Cons.prems(2) s r have eq: "st' = st2" by auto
  from serve_keeps[OF assms Cons.prems(1) s]
  have a: "dom (receipts st1) \<subseteq> gen ` {..<uuidCalls st1}"
    and b: "\<forall>k e. receipts st k = Some e \<longrightarrow> receipts st1 k = Some e" by auto
  from Cons.IH[OF a r] b eq show ?case by auto
qed

text \<open>
  C9. With a generator that never returns an identifier twice: once a submission has
  stored \<open>r\<close> and returned \<open>x\<close>, whatever requests are served afterwards, every entry of
  the map is still there unchanged, a lookup of \<open>x\<close> answers the points of \<open>r\<close> and
  leaves the state as it is, so a second lookup answers the same.
\<close>

theorem stored_entry_immutable:
  assumes "inj gen"
    and "run pl gen before newServer = (rs0, st0)"
    and "ProcessReceipt pl gen True (Some r) st0 = (IdJSON x, st1)"
    and "run pl gen after st1 = (rs, st2)"
  shows "(\<forall>k e. receipts st1 k = Some e \<longrightarrow> receipts st2 k = Some e)
    \<and> GetPoints True x st2 = (PointsJSON (calculatePoints pl r), st2)
    \<and> GetPoints True x (snd (GetPoints True x st2)) = (PointsJSON (calculatePoints pl r), st2)"
proof -
  have i0: "dom (receipts st0) \<subseteq> gen ` {..<uuidCalls st0}"
    using run_keeps[OF assms(1) _ assms(2)] by (simp add: newServer_def)
  have s: "serve pl gen (Submit True (Some r)) st0 = (IdJSON x, st1)"
    using assms(3) by simp
  from serve_keeps[OF assms(1) i0 s] have i1: "dom (receipts st1) \<subseteq> gen ` {..<uuidCalls st1}"
    by simp
  from run_keeps[OF assms(1) i1 assms(4)]
  have keep: "\<forall>k e. receipts st1 k = Some e \<longrightarrow> receipts st2 k = Some e" by simp
  have "receipts st1 x = Some \<lparr>ID = x, Points = calculatePoints pl r\<rparr>"
    using assms(3)
    by (auto simp: ProcessReceipt_def Let_def split: sum.splits)
  with keep have "receipts st2 x = Some \<lparr>ID = x, Points = calculatePoints pl r\<rparr>" by simp
  then have "GetPoints True x st2 = (PointsJSON (calculatePoints pl r), st2)"
    by (simp add: GetPoints_def)
  with keep show ?thesis by simp
qed

lemma inj_unaryIds: "inj unaryIds"
proof (rule injI)
  fix a b assume "unaryIds a = unaryIds b"
  then have "length (unaryIds a) = length (unaryIds b)" by simp
  then show "a = b" by (simp add: unaryIds_def)
qed



lemma submit_target:
  "ProcessReceipt amd64 unaryIds True (Some target) newServer =
     (IdJSON ''u'', \<lparr>receipts = [''u'' \<mapsto> \<lparr>ID = ''u'', Points = 20\<rparr>], uuidCalls = 1\<rparr>)"
  by (simp add: ProcessReceipt_def target_valid target_points newServer_def unaryIds_def Let_def)

lemma run_after:
  "run amd64 unaryIds [Submit True (Some bigPrices), Lookup True ''u'']
      \<lparr>receipts = [''u'' \<mapsto> \<lparr>ID = ''u'', Points = 20\<rparr>], uuidCalls = 1\<rparr> =
     ([IdJSON ''uu'', PointsJSON 20],
      \<lparr>receipts = [''u'' \<mapsto> \<lparr>ID = ''u'', Points = 20\<rparr>,
                   ''uu'' \<mapsto> \<lparr>ID = ''uu'', Points = 18000000000000000006\<rparr>],
       uuidCalls = 2\<rparr>)"
  by (simp add: ProcessReceipt_def GetPoints_def bigPrices_valid bigPrices_points unaryIds_def Let_def)

lemma run_nothing: "run amd64 unaryIds [] newServer = ([], newServer)"
  by simp


theorem immutable_witness:
  "inj unaryIds
   \<and> GetPoints True ''u''
        (snd (run amd64 unaryIds [Submit True (Some bigPrices), Lookup True ''u'']
           (snd (ProcessReceipt amd64 unaryIds True (Some target) newServer))))
      = (PointsJSON 20,
         \<lparr>receipts = [''u'' \<mapsto> \<lparr>ID = ''u'', Points = 20\<rparr>,
                      ''uu'' \<mapsto> \<lparr>ID = ''uu'', Points = 18000000000000000006\<rparr>],
          uuidCalls = 2\<rparr>)"
proof -
  note t = stored_entry_immutable [OF inj_unaryIds run_nothing submit_target run_after,
      THEN conjunct2, THEN conjunct1]
  from t inj_unaryIds show ?thesis
    by (simp only: submit_target run_after snd_conv target_points simp_thms)
qed


section \<open>Scoring a receipt that was not validated\<close>

lemma digits_0_1:
  "isDigit (CHR ''0'')" "digitVal (CHR ''0'') = 0" "isDigit (CHR ''1'')"
  "digitVal (CHR ''1'') = 1" "\<not> isDigit (CHR ''.'')"
  by (simp_all add: byte_eval)

lemma foldl_zeros:
  "foldl (\<lambda>a c. a * 10 + int (digitVal c)) a (replicate n (CHR ''0'')) = a * 10 ^ n"
  by (induction n arbitrary: a) (simp_all add: digits_0_1)

lemma huge_matches: "amountRegex hugeAmount"
  by (simp add: hugeAmount_def amountRegex_def digits_0_1 list_all_iff)

lemma huge_hundredths: "hundredths hugeAmount = 10 ^ 311"
  by (simp add: hugeAmount_def hundredths_def digits_0_1 foldl_zeros)

lemma huge_rounds: "roundRatio (hundredths hugeAmount) 100 = Infinite False"
  by (simp add: huge_hundredths float_eval)

lemma huge_parse: "ParseFloat pl hugeAmount = (Infinite False, Some ErrRange)"
  by (simp add: ParseFloat_def huge_matches parseAmount_def huge_rounds)

lemma huge_item: "itemPoints amd64 \<lparr>ShortDescription = ''abc'', Price = hugeAmount\<rparr> = - (2 ^ 63)"
  by (simp add: itemPoints_def huge_parse f0_2_val fmul_def Ceil_def toInt_def amd64_def)

text \<open>
  C10, as stated, fails on the code: \<open>hugeAmount\<close> is a price that \<open>ParseFloat\<close> fails to
  parse (\<open>ErrRange\<close>), and rule 5 does not treat it as 0: the price is the positive
  infinity, and on amd64 the item adds \<open>- 2 ^ 63\<close> points.
\<close>

theorem overflowing_price_not_zero:
  "amountRegex hugeAmount
   \<and> snd (ParseFloat amd64 hugeAmount) = Some ErrRange
   \<and> fst (ParseFloat amd64 hugeAmount) = Infinite False
   \<and> itemPoints amd64 \<lparr>ShortDescription = ''abc'', Price = hugeAmount\<rparr> = - (2 ^ 63)
   \<and> itemPoints amd64 \<lparr>ShortDescription = ''abc'', Price = hugeAmount\<rparr> \<noteq> 0"
  using huge_matches huge_parse [of amd64] huge_item by simp

lemma syntax_item:
  assumes "snd (ParseFloat pl (Price item)) = Some ErrSyntax"
  shows "fst (ParseFloat pl (Price item)) = Finite 0 0" and "itemPoints pl item = 0"
proof -
  from assms show z: "fst (ParseFloat pl (Price item)) = Finite 0 0"
    unfolding ParseFloat_def
    by (cases "if amountRegex (Price item) then parseAmount (Price item)
               else parseOther pl (Price item)") auto
  show "itemPoints pl item = 0"
    by (simp add: itemPoints_def z f0_2_val fmul_def roundRatio_def Ceil_def toInt_def)
qed

lemma rule5_syntax:
  "list_all (\<lambda>i. snd (ParseFloat pl (Price i)) = Some ErrSyntax) items \<Longrightarrow>
     rule5 pl items p = p"
  by (induction items arbitrary: p) (simp_all add: syntax_item)

text \<open>
  C10, amended. Scoring has no failing step, and a parse failure is absorbed: a total
  that does not parse adds nothing under rule 3, a date that does not parse nothing under
  rule 6, a time that does not parse nothing under rule 7, and an item price that is not
  well-formed (\<open>ErrSyntax\<close>) is read as 0 and adds nothing under rule 5; when all of them
  fail, the score is what rules 1, 2 and 4 give.
\<close>

theorem parse_failures_absorbed:
  "(snd (ParseFloat pl (Total r)) \<noteq> None \<longrightarrow> \<not> isTotalMultipleOf25Cents pl (Total r))
   \<and> (parseDate (PurchaseDate r) = None \<longrightarrow> \<not> isPurchaseDateOdd (PurchaseDate r))
   \<and> (parseClock (PurchaseTime r) = None \<longrightarrow>
        \<not> isPurchaseTimeBetween2And4PM (PurchaseTime r))
   \<and> (snd (ParseFloat pl (Price item)) = Some ErrSyntax \<longrightarrow>
        fst (ParseFloat pl (Price item)) = Finite 0 0 \<and> itemPoints pl item = 0)
   \<and> (snd (ParseFloat pl (Total r)) \<noteq> None \<and> parseDate (PurchaseDate r) = None
        \<and> parseClock (PurchaseTime r) = None
        \<and> list_all (\<lambda>i. snd (ParseFloat pl (Price i)) = Some ErrSyntax) (Items r) \<longrightarrow>
        calculatePoints pl r =
          of_nat (countAlphanumeric (Retailer r))
          + (if HasSuffix (Total r) ''.00'' then 50 else 0)
          + of_nat (length (Items r) div 2) * 5)"
proof -
  have t: "\<not> isTotalMultipleOf25Cents pl (Total r)" if "snd (ParseFloat pl (Total r)) \<noteq> None"
    using that by (cases "ParseFloat pl (Total r)") (auto simp: isTotalMultipleOf25Cents_def)
  have d: "\<not> isPurchaseDateOdd (PurchaseDate r)" if "parseDate (PurchaseDate r) = None"
    using that by (simp add: isPurchaseDateOdd_def)
  have c: "\<not> isPurchaseTimeBetween2And4PM (PurchaseTime r)" if "parseClock (PurchaseTime r) = None"
    using that by (simp add: isPurchaseTimeBetween2And4PM_def)
  from t d c show ?thesis
    by (auto simp: syntax_item calculatePoints_def pointsBeforeRule7_def rule5_syntax)
qed

lemma garbled_facts:
  "snd (ParseFloat amd64 (Total garbled)) = Some ErrSyntax"
  "parseDate (PurchaseDate garbled) = None"
  "parseClock (PurchaseTime garbled) = None"
  "list_all (\<lambda>i. snd (ParseFloat amd64 (Price i)) = Some ErrSyntax) (Items garbled)"
  by (simp_all add: garbled_def ParseFloat_def amountRegex_def amd64_def time_eval byte_eval)

theorem parse_failures_absorbed_witness:
  "snd (ParseFloat amd64 (Total garbled)) = Some ErrSyntax
   \<and> parseDate (PurchaseDate garbled) = None
   \<and> parseClock (PurchaseTime garbled) = None
   \<and> itemPoints amd64 (hd (Items garbled)) = 0
   \<and> calculatePoints amd64 garbled = 6"
  using parse_failures_absorbed [of amd64 garbled "hd (Items garbled)"] garbled_facts
  by (simp add: garbled_def HasSuffix_def byte_eval)


end
